theory Spec2Isabelle
  imports Complex_Main "HOL-Library.Product_Lexorder"
begin

section \<open>Data model (src/types/index.ts)\<close>

text \<open>
  A component of the visual builder is a text or image block on a 12-column grid.
  JavaScript numbers that only ever hold grid coordinates, widths and array indices are
  modelled as \<open>int\<close>. The field \<open>id\<close> of the source is called \<open>id_c\<close> here, since
  \<open>id\<close> is the identity function of HOL. The optional field \<open>alt\<close> of an image
  component is never written by the code under study and is left out.
\<close>

datatype ctype = Text | Image

record position =
  x :: int
  y :: int

record component =
  id_c :: string
  type :: ctype
  content :: string
  width :: int
  position :: position

type_synonym layout = "component list"

section \<open>Application state (src/app/page.tsx)\<close>

text \<open>
  The three pieces of React state that the history code reads and writes. Reading a
  JavaScript array out of range yields \<open>undefined\<close>; \<open>undo\<close> and \<open>redo\<close> pass such a
  read to \<open>setComponents\<close>, so the current layout is an option, \<open>None\<close> standing for
  \<open>undefined\<close>.
\<close>

record state =
  components :: "layout option"
  history :: "layout list"
  historyIndex :: int

definition initial_state :: state where
  "initial_state = \<lparr>components = Some [], history = [], historyIndex = - 1\<rparr>"

text \<open>\<open>xs.slice(0, e)\<close>: a negative end counts from the end of the array.\<close>

definition slice0 :: "'a list \<Rightarrow> int \<Rightarrow> 'a list" where
  "slice0 xs e = (if e < 0 then take (nat (int (length xs) + e)) xs else take (nat e) xs)"

text \<open>\<open>xs[i]\<close>: \<open>undefined\<close> outside the array.\<close>

definition js_index :: "'a list \<Rightarrow> int \<Rightarrow> 'a option" where
  "js_index xs i = (if 0 \<le> i \<and> i < int (length xs) then Some (xs ! nat i) else None)"

definition addToHistory :: "layout \<Rightarrow> state \<Rightarrow> state" where
  "addToHistory newComponents st =
     (let newHistory = slice0 (history st) (historyIndex st + 1) @ [newComponents]
      in if length newHistory > 50
         then st\<lparr>history := tl newHistory\<rparr>
         else st\<lparr>historyIndex := int (length newHistory) - 1, history := newHistory\<rparr>)"

definition undo :: "state \<Rightarrow> state" where
  "undo st =
     (if historyIndex st > 0
      then (let newIndex = historyIndex st - 1
            in st\<lparr>historyIndex := newIndex, components := js_index (history st) newIndex\<rparr>)
      else st)"

definition redo :: "state \<Rightarrow> state" where
  "redo st =
     (if historyIndex st < int (length (history st)) - 1
      then (let newIndex = historyIndex st + 1
            in st\<lparr>historyIndex := newIndex, components := js_index (history st) newIndex\<rparr>)
      else st)"

subsection \<open>Sequences of history operations\<close>

datatype history_op = Commit layout | Undo | Redo

fun history_step :: "state \<Rightarrow> history_op \<Rightarrow> state" where
  "history_step st (Commit s) = addToHistory s st"
| "history_step st Undo = undo st"
| "history_step st Redo = redo st"

definition run_history :: "history_op list \<Rightarrow> state \<Rightarrow> state" where
  "run_history ops st = foldl history_step st ops"

section \<open>Placement of a new component (src/app/page.tsx)\<close>

definition calculateNextPosition :: "layout \<Rightarrow> position" where
  "calculateNextPosition cs =
     (if length cs = 0 then \<lparr>x = 0, y = 0\<rparr>
      else (let lastComponent = cs ! (length cs - 1);
                nextX = x (position lastComponent) + width lastComponent
            in if nextX + 6 \<le> 12
               then \<lparr>x = nextX, y = y (position lastComponent)\<rparr>
               else \<lparr>x = 0, y = y (position lastComponent) + 1\<rparr>))"

definition default_text_content :: string where
  "default_text_content =
     ''# New Text Component'' @ [CHR 0x0A, CHR 0x0A]
     @ ''Enter your markdown content here...'' @ [CHR 0x0A, CHR 0x0A]
     @ ''- **Bold text**'' @ [CHR 0x0A] @ ''- *Italic text*'' @ [CHR 0x0A]
     @ ''- `Code snippets`''"

text \<open>
  \<open>createComponent\<close> reads the clock for the id; the decimal text of \<open>Date.now()\<close> is
  a parameter here.
\<close>

definition createComponent :: "ctype \<Rightarrow> string \<Rightarrow> layout \<Rightarrow> component" where
  "createComponent ty timestamp cs =
     (let pos = calculateNextPosition cs
      in if ty = Text
         then \<lparr>id_c = ''text-'' @ timestamp, type = Text, content = default_text_content,
               width = 6, position = pos\<rparr>
         else \<lparr>id_c = ''image-'' @ timestamp, type = Image,
               content = ''https://placehold.co/600x400'', width = 6, position = pos\<rparr>)"

section \<open>Reordering by drag and drop (DragAndDropArea)\<close>

text \<open>
  \<open>handleComponentReorder\<close>, from the point where the drop point has been converted to
  the grid cell \<open>(gridX, gridY)\<close>. The result \<open>None\<close> is the early \<open>return\<close> taken when no
  component has the dragged id: \<open>onReorderComponents\<close> is not called then. Otherwise the
  result is the array handed to \<open>onReorderComponents\<close>.
\<close>

definition handleComponentReorder :: "layout \<Rightarrow> string \<Rightarrow> int \<Rightarrow> int \<Rightarrow> layout option" where
  "handleComponentReorder cs componentId gridX gridY =
     (case find (\<lambda>c. id_c c = componentId) cs of
        None \<Rightarrow> None
      | Some draggedComponent \<Rightarrow>
          (case find (\<lambda>c. id_c c \<noteq> componentId \<and> y (position c) = gridY
                            \<and> gridX \<ge> x (position c) \<and> gridX < x (position c) + width c) cs of
             Some targetComponent \<Rightarrow>
               Some (map (\<lambda>c. if id_c c = componentId
                                then c\<lparr>position := position targetComponent\<rparr>
                                else if id_c c = id_c targetComponent
                                then c\<lparr>position := position draggedComponent\<rparr>
                                else c) cs)
           | None \<Rightarrow>
               (let newPosition = \<lparr>x = gridX, y = gridY\<rparr>;
                    newPosition' = (if x newPosition + width draggedComponent > 12
                                    then newPosition\<lparr>x := max 0 (12 - width draggedComponent)\<rparr>
                                    else newPosition)
                in Some (map (\<lambda>c. if id_c c = componentId
                                    then c\<lparr>position := newPosition'\<rparr> else c) cs))))"

section \<open>Resizing by dragging an edge (TextComponent, ImageComponent)\<close>

datatype direction = Left | Right

text \<open>\<open>Math.round\<close>: the nearest integer, a half rounded towards plus infinity.\<close>

definition Math_round :: "rat \<Rightarrow> int" where
  "Math_round q = \<lfloor>q + 1 / 2\<rfloor>"

text \<open>
  One \<open>mousemove\<close> of a resize drag. \<open>c\<close> is the component captured when the drag began,
  \<open>deltaX\<close> the pointer's distance in pixels from where it began, and the pair is
  \<open>(finalWidth, finalPosition)\<close> before and after the event. The second result is the
  component passed to \<open>onUpdateResize\<close>, if it is called.
\<close>

definition handleMouseMove ::
  "component \<Rightarrow> direction \<Rightarrow> int \<Rightarrow> int \<times> int \<Rightarrow> (int \<times> int) \<times> component option" where
  "handleMouseMove c dir deltaX final =
     (let startWidth = width c;
          startPosition = x (position c);
          deltaColumns = Math_round (of_int deltaX / 100);
          newWidth = (if dir = Left
                      then max 1 (min 12 (startWidth - deltaColumns))
                      else max 1 (min 12 (startWidth + deltaColumns)));
          newPosition = (if dir = Left
                         then startPosition + (startWidth - newWidth)
                         else startPosition)
      in if newPosition + newWidth \<le> 12 \<and> newPosition \<ge> 0
         then ((newWidth, newPosition),
               if newWidth \<noteq> width c \<or> newPosition \<noteq> x (position c)
               then Some (c\<lparr>width := newWidth, position := (position c)\<lparr>x := newPosition\<rparr>\<rparr>)
               else None)
         else (final, None))"

text \<open>\<open>handleMouseUp\<close>: the component passed to \<open>onUpdate\<close> when the drag ends.\<close>

definition handleMouseUp :: "component \<Rightarrow> int \<times> int \<Rightarrow> component" where
  "handleMouseUp c final =
     c\<lparr>width := fst final, position := (position c)\<lparr>x := snd final\<rparr>\<rparr>"

section \<open>The handlers of the page (src/app/page.tsx)\<close>

text \<open>
  A handler that reads the current layout throws a \<open>TypeError\<close> when that layout is
  \<open>undefined\<close>.
\<close>

datatype error = TypeError

definition addComponent :: "ctype \<Rightarrow> string \<Rightarrow> state \<Rightarrow> error + state" where
  "addComponent ty timestamp st =
     (case components st of
        None \<Rightarrow> Inl TypeError
      | Some cs \<Rightarrow>
          (let newComponent = createComponent ty timestamp cs;
               newComponents = cs @ [newComponent]
           in Inr (addToHistory newComponents (st\<lparr>components := Some newComponents\<rparr>))))"

definition updateComponent :: "component \<Rightarrow> state \<Rightarrow> error + state" where
  "updateComponent updatedComponent st =
     (case components st of
        None \<Rightarrow> Inl TypeError
      | Some cs \<Rightarrow>
          (let newComponents = map (\<lambda>c. if id_c c = id_c updatedComponent
                                         then updatedComponent else c) cs
           in Inr (addToHistory newComponents (st\<lparr>components := Some newComponents\<rparr>))))"

text \<open>
  \<open>updateComponentResize\<close> sets the new layout and hands it to \<open>debouncedAddToHistory\<close>,
  which starts a timer of 300 ms. The function below is the change of state made at the
  call; the timer is kept by the session further down, where it is started and fires.
\<close>

definition updateComponentResize :: "component \<Rightarrow> state \<Rightarrow> error + state" where
  "updateComponentResize updatedComponent st =
     (case components st of
        None \<Rightarrow> Inl TypeError
      | Some cs \<Rightarrow>
          (let newComponents = map (\<lambda>c. if id_c c = id_c updatedComponent
                                         then updatedComponent else c) cs
           in Inr (st\<lparr>components := Some newComponents\<rparr>)))"

definition deleteComponent :: "string \<Rightarrow> state \<Rightarrow> error + state" where
  "deleteComponent ident st =
     (case components st of
        None \<Rightarrow> Inl TypeError
      | Some cs \<Rightarrow>
          (let newComponents = filter (\<lambda>c. id_c c \<noteq> ident) cs
           in Inr (addToHistory newComponents (st\<lparr>components := Some newComponents\<rparr>))))"

definition reorderComponents :: "layout \<Rightarrow> state \<Rightarrow> state" where
  "reorderComponents reorderedComponents st =
     addToHistory reorderedComponents (st\<lparr>components := Some reorderedComponents\<rparr>)"

text \<open>\<open>handleDrop\<close> for a drop of kind \<open>move\<close>, on the grid cell \<open>(gridX, gridY)\<close>.\<close>

definition handleDrop_move :: "string \<Rightarrow> int \<Rightarrow> int \<Rightarrow> state \<Rightarrow> error + state" where
  "handleDrop_move componentId gridX gridY st =
     (case components st of
        None \<Rightarrow> Inl TypeError
      | Some cs \<Rightarrow>
          (case handleComponentReorder cs componentId gridX gridY of
             None \<Rightarrow> Inr st
           | Some updatedComponents \<Rightarrow> Inr (reorderComponents updatedComponents st)))"

section \<open>Closures, rendering and timers\<close>

text \<open>
  A handler is a closure of the render that made it: whenever it runs, it reads the
  state \<open>st0\<close> of that render, and what it sets is set in the state \<open>st\<close> of the moment.
  \<open>addToHistory_from st0\<close> is \<open>addToHistory\<close> as made by the render with state \<open>st0\<close>.
  Note that on overflow \<open>setHistoryIndex\<close> is not called, so the cursor of \<open>st\<close> stays.
\<close>

definition addToHistory_from :: "state \<Rightarrow> layout \<Rightarrow> state \<Rightarrow> state" where
  "addToHistory_from st0 newComponents st =
     (let newHistory = slice0 (history st0) (historyIndex st0 + 1) @ [newComponents]
      in if length newHistory > 50
         then st\<lparr>history := tl newHistory\<rparr>
         else st\<lparr>historyIndex := int (length newHistory) - 1, history := newHistory\<rparr>)"

text \<open>
  Each render of \<open>DragAndDropArea\<close> runs
  \<open>components.sort((a, b) => a.position.y - b.position.y || a.position.x - b.position.x)\<close>
  on the array it is given, which is the array of the page's state: a stable sort by row,
  then column, made in place.
\<close>

definition grid_key :: "component \<Rightarrow> int \<times> int" where
  "grid_key c = (y (position c), x (position c))"

definition sort_components :: "layout \<Rightarrow> layout" where
  "sort_components cs = sort_key grid_key cs"

text \<open>
  The sort is in place, so it is seen wherever the sorted array is held. The handlers
  make one new array per event and hold it in the state and in one more place: the last
  snapshot (a commit), or the timer (a live resize). After \<open>undo\<close> and \<open>redo\<close> the array
  on display is the snapshot at the cursor. Sorting \<open>undefined\<close> throws.

  \<open>render_committed\<close> is the render after a handler that has set a new array and
  committed it; \<open>render_snapshot\<close> the render after \<open>undo\<close> or \<open>redo\<close>.
\<close>

definition render_committed :: "state \<Rightarrow> error + state" where
  "render_committed st =
     (case components st of
        None \<Rightarrow> Inl TypeError
      | Some cs \<Rightarrow>
          Inr (st\<lparr>components := Some (sort_components cs),
                   history := butlast (history st) @ [sort_components cs]\<rparr>))"

definition render_snapshot :: "state \<Rightarrow> error + state" where
  "render_snapshot st =
     (case components st of
        None \<Rightarrow> Inl TypeError
      | Some cs \<Rightarrow>
          Inr (st\<lparr>components := Some (sort_components cs),
                   history := (history st)[nat (historyIndex st) := sort_components cs]\<rparr>))"

text \<open>
  A pending timer of \<open>debouncedAddToHistory\<close>: the layout it will commit, and the state
  of the render whose \<open>addToHistory\<close> it will call.
\<close>

record timer =
  timer_layout :: layout
  timer_closure :: state

text \<open>
  A resize drag between \<open>mousedown\<close> and \<open>mouseup\<close>. The listeners of the drag are the
  closures made at \<open>mousedown\<close>: they hold the component as rendered then, the direction,
  \<open>finalWidth\<close> and \<open>finalPosition\<close>, and the handlers \<open>onUpdateResize\<close> and \<open>onUpdate\<close> of
  that render, which read the state of that render (\<open>drag_closure\<close>). All live updates of
  one drag go through one \<open>debouncedAddToHistory\<close>, so the drag has at most one timer,
  restarted by each live update.
\<close>

record drag =
  drag_component :: component
  drag_direction :: direction
  drag_final :: "int \<times> int"
  drag_closure :: state
  drag_timer :: "timer option"

text \<open>
  The page between two events: its state after the last render, the drag in progress if
  there is one, and the timers of the drags that have ended, the oldest first.
\<close>

record session =
  page :: state
  active_drag :: "drag option"
  timers :: "timer list"

definition initial_session :: session where
  "initial_session = \<lparr>page = initial_state, active_drag = None, timers = []\<rparr>"

definition show_committed :: "session \<Rightarrow> error + state \<Rightarrow> error + session" where
  "show_committed s r =
     (case r of
        Inl e \<Rightarrow> Inl e
      | Inr st \<Rightarrow>
          (case render_committed st of
             Inl e \<Rightarrow> Inl e
           | Inr st' \<Rightarrow> Inr (s\<lparr>page := st'\<rparr>)))"

definition show_snapshot :: "session \<Rightarrow> state \<Rightarrow> error + session" where
  "show_snapshot s st =
     (case render_snapshot st of
        Inl e \<Rightarrow> Inl e
      | Inr st' \<Rightarrow> Inr (s\<lparr>page := st'\<rparr>))"

definition fire :: "timer \<Rightarrow> state \<Rightarrow> state" where
  "fire t st = addToHistory_from (timer_closure t) (timer_layout t) st"

subsection \<open>Sequences of events\<close>

datatype event =
    AddComponent ctype string
  | MoveDrop string int int
  | MouseDown string direction
  | MouseMove int
  | MouseUp
  | DeleteComponent string
  | UndoKey
  | RedoKey
  | TimerFires

text \<open>
  The events of a session, each with the data its handler takes from it, and the render
  that follows when the handler has changed the state.
  \<^item> \<open>MouseDown\<close> is on the resize handle of the component with the given id, on the
    given side; with a drag in progress the button is down already, and with no such
    component there is no such handle.
  \<^item> \<open>MouseMove\<close> carries \<open>deltaX\<close>, the distance from where the drag began; it and
    \<open>MouseUp\<close> have a listener only during a drag.
  \<^item> \<open>TimerFires\<close> is the oldest pending timer running out. The timers of ended drags
    were started before any timer of the drag in progress.
  A timer commits an array that was on display, and so sorted, when the timer was
  started, and it leaves the array on display alone.
\<close>

fun session_step :: "session \<Rightarrow> event \<Rightarrow> error + session" where
  "session_step s (AddComponent ty timestamp) =
     show_committed s (addComponent ty timestamp (page s))"
| "session_step s (MoveDrop componentId gridX gridY) =
     (case components (page s) of
        None \<Rightarrow> Inl TypeError
      | Some cs \<Rightarrow>
          (case handleComponentReorder cs componentId gridX gridY of
             None \<Rightarrow> Inr s
           | Some updatedComponents \<Rightarrow>
               show_committed s (handleDrop_move componentId gridX gridY (page s))))"
| "session_step s (MouseDown ident dir) =
     (case active_drag s of
        Some d \<Rightarrow> Inr s
      | None \<Rightarrow>
          (case components (page s) of
             None \<Rightarrow> Inl TypeError
           | Some cs \<Rightarrow>
               (case find (\<lambda>c. id_c c = ident) cs of
                  None \<Rightarrow> Inr s
                | Some c \<Rightarrow>
                    Inr (s\<lparr>active_drag :=
                              Some \<lparr>drag_component = c, drag_direction = dir,
                                    drag_final = (width c, x (position c)),
                                    drag_closure = page s, drag_timer = None\<rparr>\<rparr>))))"
| "session_step s (MouseMove deltaX) =
     (case active_drag s of
        None \<Rightarrow> Inr s
      | Some d \<Rightarrow>
          (case handleMouseMove (drag_component d) (drag_direction d) deltaX (drag_final d) of
             (final', None) \<Rightarrow> Inr (s\<lparr>active_drag := Some (d\<lparr>drag_final := final'\<rparr>)\<rparr>)
           | (final', Some live) \<Rightarrow>
               (case updateComponentResize live (drag_closure d) of
                  Inl e \<Rightarrow> Inl e
                | Inr r \<Rightarrow>
                    (case components r of
                       None \<Rightarrow> Inl TypeError
                     | Some newComponents \<Rightarrow>
                         Inr (s\<lparr>page := (page s)\<lparr>components :=
                                                    Some (sort_components newComponents)\<rparr>,
                                 active_drag :=
                                   Some (d\<lparr>drag_final := final',
                                           drag_timer :=
                                             Some \<lparr>timer_layout = sort_components newComponents,
                                                   timer_closure = drag_closure d\<rparr>\<rparr>)\<rparr>)))))"
| "session_step s MouseUp =
     (case active_drag s of
        None \<Rightarrow> Inr s
      | Some d \<Rightarrow>
          (case updateComponent (handleMouseUp (drag_component d) (drag_final d))
                  (drag_closure d) of
             Inl e \<Rightarrow> Inl e
           | Inr r \<Rightarrow>
               (case components r of
                  None \<Rightarrow> Inl TypeError
                | Some newComponents \<Rightarrow>
                    show_committed
                      (s\<lparr>active_drag := None,
                         timers := timers s @ (case drag_timer d of None \<Rightarrow> [] | Some t \<Rightarrow> [t])\<rparr>)
                      (Inr (addToHistory_from (drag_closure d) newComponents
                              ((page s)\<lparr>components := Some newComponents\<rparr>))))))"
| "session_step s (DeleteComponent ident) =
     show_committed s (deleteComponent ident (page s))"
| "session_step s UndoKey =
     (if historyIndex (page s) > 0 then show_snapshot s (undo (page s)) else Inr s)"
| "session_step s RedoKey =
     (if historyIndex (page s) < int (length (history (page s))) - 1
      then show_snapshot s (redo (page s)) else Inr s)"
| "session_step s TimerFires =
     (case timers s of
        t # ts \<Rightarrow> Inr (s\<lparr>page := fire t (page s), timers := ts\<rparr>)
      | [] \<Rightarrow>
          (case active_drag s of
             None \<Rightarrow> Inr s
           | Some d \<Rightarrow>
               (case drag_timer d of
                  None \<Rightarrow> Inr s
                | Some t \<Rightarrow>
                    Inr (s\<lparr>page := fire t (page s),
                            active_drag := Some (d\<lparr>drag_timer := None\<rparr>)\<rparr>))))"

fun run_session :: "session \<Rightarrow> event list \<Rightarrow> error + session" where
  "run_session s [] = Inr s"
| "run_session s (e # es) =
     (case session_step s e of Inl err \<Rightarrow> Inl err | Inr s' \<Rightarrow> run_session s' es)"

definition layout_of :: "error + session \<Rightarrow> layout option" where
  "layout_of r = (case r of Inl e \<Rightarrow> None | Inr s \<Rightarrow> components (page s))"

section \<open>The grid invariants of the specification\<close>

text \<open>
  A block lies in the grid when its width is between 1 and 12 and it ends at column 12
  or before.
\<close>

definition in_grid :: "component \<Rightarrow> bool" where
  "in_grid c = (1 \<le> width c \<and> width c \<le> 12 \<and> x (position c) + width c \<le> 12)"

text \<open>
  Two blocks overlap when they are on the same row and their column intervals
  \<open>[x, x + width)\<close> share a column.
\<close>

definition overlaps :: "component \<Rightarrow> component \<Rightarrow> bool" where
  "overlaps a b =
     (y (position a) = y (position b)
      \<and> max (x (position a)) (x (position b))
          < min (x (position a) + width a) (x (position b) + width b))"

fun no_overlap :: "layout \<Rightarrow> bool" where
  "no_overlap [] = True"
| "no_overlap (c # cs) = (list_all (\<lambda>d. \<not> overlaps c d) cs \<and> no_overlap cs)"

text \<open>The block \<open>c\<close> occupies the cell \<open>(gx, gy)\<close>.\<close>

definition occupies :: "component \<Rightarrow> int \<Rightarrow> int \<Rightarrow> bool" where
  "occupies c gx gy =
     (y (position c) = gy \<and> x (position c) \<le> gx \<and> gx < x (position c) + width c)"

text \<open>The array on display is in the order of the grid: by row, then by column.\<close>

definition shown_sorted :: "session \<Rightarrow> bool" where
  "shown_sorted s =
     (case components (page s) of None \<Rightarrow> True | Some cs \<Rightarrow> sorted (map grid_key cs))"

section \<open>Concrete layouts and histories\<close>

text \<open>Inputs at which the theorems below are evaluated.\<close>

definition block :: "string \<Rightarrow> int \<Rightarrow> int \<Rightarrow> int \<Rightarrow> component" where
  "block ident px py w =
     \<lparr>id_c = ident, type = Text, content = [], width = w, position = \<lparr>x = px, y = py\<rparr>\<rparr>"

definition snapshot_at :: "nat \<Rightarrow> layout" where
  "snapshot_at k = [block ''s'' 0 (int k) 6]"

definition fifty_commits :: state where
  "fifty_commits = run_history (map (\<lambda>k. Commit (snapshot_at k)) [1..<51]) initial_state"


definition three_blocks :: layout where
  "three_blocks = [block ''a'' 0 0 6, block ''b'' 6 0 3, block ''c'' 9 0 3]"

definition three_blocks_swapped :: layout where
  "three_blocks_swapped = [block ''a'' 6 0 6, block ''b'' 0 0 3, block ''c'' 9 0 3]"

definition equal_blocks :: layout where
  "equal_blocks = [block ''a'' 0 0 4, block ''b'' 4 0 4, block ''c'' 8 0 4]"

definition equal_blocks_swapped :: layout where
  "equal_blocks_swapped = [block ''a'' 8 0 4, block ''b'' 4 0 4, block ''c'' 0 0 4]"

definition text_block :: "string \<Rightarrow> int \<Rightarrow> int \<Rightarrow> int \<Rightarrow> component" where
  "text_block ident px py w =
     \<lparr>id_c = ident, type = Text, content = default_text_content, width = w,
      position = \<lparr>x = px, y = py\<rparr>\<rparr>"

definition resize_then_swap :: "event list" where
  "resize_then_swap =
     [AddComponent Text ''1'', AddComponent Text ''2'',
      MouseDown ''text-2'' Left, MouseMove 300, MouseUp, MoveDrop ''text-1'' 9 0]"

definition move_then_add :: "event list" where
  "move_then_add =
     [AddComponent Text ''1'', AddComponent Text ''2'', AddComponent Text ''3'',
      MoveDrop ''text-1'' 0 5, AddComponent Text ''4'']"

section \<open>Properties of the history\<close>

lemma length_slice0_le: "length (slice0 xs e) \<le> length xs"
  by (auto simp: slice0_def)


lemma history_undo: "history (undo st) = history st"
  by (simp add: undo_def Let_def)

lemma history_redo: "history (redo st) = history st"
  by (simp add: redo_def Let_def)

lemma length_history_addToHistory:
  "length (history st) \<le> 50 \<Longrightarrow> length (history (addToHistory s st)) \<le> 50"
  using length_slice0_le [of "history st" "historyIndex st + 1"]
  by (simp add: addToHistory_def Let_def)

lemma length_history_step:
  "length (history st) \<le> 50 \<Longrightarrow> length (history (history_step st a)) \<le> 50"
  by (cases a) (simp_all add: length_history_addToHistory history_undo history_redo)

lemma length_history_foldl:
  "length (history st) \<le> 50 \<Longrightarrow> length (history (foldl history_step st ops)) \<le> 50"
  by (induction ops arbitrary: st) (simp_all add: length_history_step)



text \<open>
  C4. Starting from the empty history (no snapshots, cursor \<open>-1\<close>), after any sequence of
  commits, undos and redos the snapshot list holds at most 50 snapshots.
\<close>

theorem history_length_le_50:
  "length (history (run_history ops initial_state)) \<le> 50"
  unfolding run_history_def
  by (rule length_history_foldl) (simp add: initial_state_def)

text \<open>
  C10. Neither \<open>undo\<close> nor \<open>redo\<close> changes the list of stored snapshots: its length and
  every element are the same afterwards, and the state differs from the one before in
  the cursor and the current layout at most.
\<close>

theorem undo_redo_keep_history:
  "history (undo st) = history st \<and> history (redo st) = history st
   \<and> undo st = st\<lparr>historyIndex := historyIndex (undo st), components := components (undo st)\<rparr>
   \<and> redo st = st\<lparr>historyIndex := historyIndex (redo st), components := components (redo st)\<rparr>"
  by (simp add: undo_def redo_def Let_def)

text \<open>
  C7. In a history state whose cursor is positive and, as in every history state, below
  the number of snapshots, \<open>undo\<close> followed by \<open>redo\<close> brings the cursor back to its
  value before the undo and makes the snapshot stored at that cursor, the one that was
  undone, the current layout; the snapshot list is the same. With the cursor at 0 or
  below, \<open>undo\<close> changes nothing.
\<close>

theorem redo_undo_restores:
  "(0 < historyIndex st \<and> historyIndex st < int (length (history st)) \<longrightarrow>
      components (undo st) = Some (history st ! nat (historyIndex st - 1))
      \<and> historyIndex (redo (undo st)) = historyIndex st
      \<and> components (redo (undo st)) = Some (history st ! nat (historyIndex st))
      \<and> history (redo (undo st)) = history st)
   \<and> (historyIndex st \<le> 0 \<longrightarrow> undo st = st)"
  by (simp add: undo_def redo_def Let_def js_index_def)

theorem redo_undo_restores_witness:
  "0 < historyIndex fifty_commits
   \<and> historyIndex fifty_commits < int (length (history fifty_commits))
   \<and> historyIndex (redo (undo fifty_commits)) = historyIndex fifty_commits
   \<and> components (redo (undo fifty_commits)) = Some (history fifty_commits ! nat (historyIndex fifty_commits))
   \<and> historyIndex initial_state \<le> 0 \<and> undo initial_state = initial_state"
proof -
  have h1: "0 < historyIndex fifty_commits \<and> historyIndex fifty_commits < int (length (history fifty_commits))"
    by code_simp
  have h2: "historyIndex initial_state \<le> 0"
    by (simp add: initial_state_def)
  show ?thesis
    using h1 h2 redo_undo_restores [of fifty_commits] redo_undo_restores [of initial_state]
    by blast
qed






section \<open>Properties of rendering and of the closures\<close>

lemma addToHistory_from_self: "addToHistory_from st newComponents st = addToHistory newComponents st"
  by (simp add: addToHistory_from_def addToHistory_def)

lemma sort_components_sorted: "sorted (map grid_key (sort_components cs))"
  by (simp add: sort_components_def)

lemma sort_components_idem: "sort_components (sort_components cs) = sort_components cs"
  by (simp add: sort_components_def sort_key_id_if_sorted)

lemma show_committed_sorted: "show_committed s r = Inr s' \<Longrightarrow> shown_sorted s'"
  by (auto simp: show_committed_def render_committed_def shown_sorted_def sort_components_sorted
      split: sum.splits option.splits)

lemma show_snapshot_sorted: "show_snapshot s st = Inr s' \<Longrightarrow> shown_sorted s'"
  by (auto simp: show_snapshot_def render_snapshot_def shown_sorted_def sort_components_sorted
      split: sum.splits option.splits)

lemma components_fire: "components (fire t st) = components st"
  by (simp add: fire_def addToHistory_from_def Let_def)

lemma session_step_sorted:
  assumes "session_step s e = Inr s'" and "shown_sorted s"
  shows "shown_sorted s'"
proof (cases e)
  case (AddComponent ty ts)
  with assms(1) show ?thesis by (auto dest: show_committed_sorted)
next
  case (MoveDrop c gx gy)
  with assms show ?thesis
    by (auto dest: show_committed_sorted split: option.splits)
next
  case (MouseDown i d)
  with assms show ?thesis
    by (auto simp: shown_sorted_def split: option.splits)
next
  case (MouseMove dx)
  with assms show ?thesis
    by (auto simp: shown_sorted_def sort_components_sorted split: option.splits prod.splits sum.splits)
next
  case MouseUp
  with assms show ?thesis
    by (auto dest: show_committed_sorted split: option.splits sum.splits)
next
  case (DeleteComponent i)
  with assms(1) show ?thesis by (auto dest: show_committed_sorted)
next
  case UndoKey
  with assms show ?thesis
    by (auto dest: show_snapshot_sorted split: if_splits)
next
  case RedoKey
  with assms show ?thesis
    by (auto dest: show_snapshot_sorted split: if_splits)
next
  case TimerFires
  with assms show ?thesis
    by (auto simp: shown_sorted_def components_fire split: list.splits option.splits)
qed

lemma run_session_sorted:
  "run_session s es = Inr s' \<Longrightarrow> shown_sorted s \<Longrightarrow> shown_sorted s'"
proof (induction es arbitrary: s)
  case Nil
  then show ?case by simp
next
  case (Cons e es)
  then show ?case
    by (auto split: sum.splits dest: session_step_sorted)
qed

lemma run_session_snoc:
  "run_session s (es @ [e]) =
     (case run_session s es of Inl err \<Rightarrow> Inl err | Inr s' \<Rightarrow> session_step s' e)"
  by (induction es arbitrary: s) (auto split: sum.splits)

lemma shown_sorted_initial: "shown_sorted initial_session"
  by (simp add: shown_sorted_def initial_session_def initial_state_def)

section \<open>Properties of placement\<close>

text \<open>
  Three text blocks are added, which puts \<open>text-3\<close>, the block inserted last, at
  \<open>{x: 0, y: 1}\<close>. Then \<open>text-1\<close> is dropped on the free cell \<open>(0, 5)\<close>, and the render
  sorts the array of the state: \<open>text-1\<close> is now its last element. The fourth block is
  placed beside \<open>text-1\<close>, at \<open>{x: 6, y: 5}\<close>, and not at \<open>{x: 6, y: 1}\<close> beside the block
  inserted last.
\<close>

theorem last_inserted_counterexample:
  "layout_of (run_session initial_session (take 3 move_then_add))
     = Some [text_block ''text-1'' 0 0 6, text_block ''text-2'' 6 0 6, text_block ''text-3'' 0 1 6]
   \<and> layout_of (run_session initial_session (take 4 move_then_add))
     = Some [text_block ''text-2'' 6 0 6, text_block ''text-3'' 0 1 6, text_block ''text-1'' 0 5 6]
   \<and> layout_of (run_session initial_session move_then_add)
     = Some [text_block ''text-2'' 6 0 6, text_block ''text-3'' 0 1 6, text_block ''text-1'' 0 5 6,
             text_block ''text-4'' 6 5 6]
   \<and> calculateNextPosition [text_block ''text-3'' 0 1 6] = \<lparr>x = 6, y = 1\<rparr>
   \<and> position (text_block ''text-4'' 6 5 6) \<noteq> calculateNextPosition [text_block ''text-3'' 0 1 6]"
  by code_simp

text \<open>
  C5, amended. \<open>calculateNextPosition\<close> returns \<open>{x: 0, y: 0}\<close> for the empty layout. For
  a layout whose array ends with the block \<open>c\<close>, with \<open>nextX = c.position.x + c.width\<close>, it
  returns \<open>{x: nextX, y: c.position.y}\<close> when \<open>nextX + 6 \<le> 12\<close> and
  \<open>{x: 0, y: c.position.y + 1}\<close> otherwise; the blocks before \<open>c\<close> play no part. In every
  session of the page the array on display is sorted by row and column, so its last
  element \<open>d\<close> is a block that no other block follows in that order, which need not be
  the block inserted last; the next block added is placed from \<open>d\<close> alone.
\<close>

theorem calculateNextPosition_last:
  "calculateNextPosition [] = \<lparr>x = 0, y = 0\<rparr>
   \<and> calculateNextPosition (cs @ [c]) =
       (if x (position c) + width c + 6 \<le> 12
        then \<lparr>x = x (position c) + width c, y = y (position c)\<rparr>
        else \<lparr>x = 0, y = y (position c) + 1\<rparr>)
   \<and> calculateNextPosition (cs @ [c]) = calculateNextPosition [c]
   \<and> (layout_of (run_session initial_session es) = Some (ds @ [d]) \<longrightarrow>
        (\<forall>b \<in> set ds. grid_key b \<le> grid_key d)
        \<and> layout_of (run_session initial_session (es @ [AddComponent ty timestamp]))
            = Some (sort_components (ds @ [d, createComponent ty timestamp (ds @ [d])]))
        \<and> position (createComponent ty timestamp (ds @ [d])) = calculateNextPosition [d])"
proof -
  have fn: "calculateNextPosition [] = \<lparr>x = 0, y = 0\<rparr>
   \<and> calculateNextPosition (cs @ [c]) =
       (if x (position c) + width c + 6 \<le> 12
        then \<lparr>x = x (position c) + width c, y = y (position c)\<rparr>
        else \<lparr>x = 0, y = y (position c) + 1\<rparr>)
   \<and> calculateNextPosition (cs @ [c]) = calculateNextPosition [c]"
    by (simp add: calculateNextPosition_def Let_def)
  have ses: "(\<forall>b \<in> set ds. grid_key b \<le> grid_key d)
        \<and> layout_of (run_session initial_session (es @ [AddComponent ty timestamp]))
            = Some (sort_components (ds @ [d, createComponent ty timestamp (ds @ [d])]))
        \<and> position (createComponent ty timestamp (ds @ [d])) = calculateNextPosition [d]"
    if h: "layout_of (run_session initial_session es) = Some (ds @ [d])"
  proof -
    from h obtain s where s: "run_session initial_session es = Inr s"
      and cs: "components (page s) = Some (ds @ [d])"
      by (auto simp: layout_of_def split: sum.splits)
    from run_session_sorted [OF s shown_sorted_initial] cs
    have "sorted (map grid_key (ds @ [d]))"
      by (simp add: shown_sorted_def)
    then have a: "\<forall>b \<in> set ds. grid_key b \<le> grid_key d"
      by (simp add: sorted_append)
    have b: "layout_of (run_session initial_session (es @ [AddComponent ty timestamp]))
            = Some (sort_components (ds @ [d, createComponent ty timestamp (ds @ [d])]))"
      unfolding run_session_snoc s using cs
      by (simp add: layout_of_def show_committed_def addComponent_def render_committed_def
          addToHistory_def Let_def)
    have c: "position (createComponent ty timestamp (ds @ [d])) = calculateNextPosition [d]"
      by (simp add: createComponent_def Let_def calculateNextPosition_def)
    from a b c show ?thesis by blast
  qed
  from fn ses show ?thesis by blast
qed

theorem calculateNextPosition_last_witness:
  "layout_of (run_session initial_session (take 4 move_then_add))
     = Some ([text_block ''text-2'' 6 0 6, text_block ''text-3'' 0 1 6] @ [text_block ''text-1'' 0 5 6])
   \<and> grid_key (text_block ''text-2'' 6 0 6) \<le> grid_key (text_block ''text-1'' 0 5 6)
   \<and> grid_key (text_block ''text-3'' 0 1 6) \<le> grid_key (text_block ''text-1'' 0 5 6)
   \<and> position (createComponent Text ''4''
        ([text_block ''text-2'' 6 0 6, text_block ''text-3'' 0 1 6] @ [text_block ''text-1'' 0 5 6]))
       = calculateNextPosition [text_block ''text-1'' 0 5 6]
   \<and> calculateNextPosition [text_block ''text-1'' 0 5 6] = \<lparr>x = 6, y = 5\<rparr>"
proof -
  have h: "layout_of (run_session initial_session (take 4 move_then_add))
     = Some ([text_block ''text-2'' 6 0 6, text_block ''text-3'' 0 1 6] @ [text_block ''text-1'' 0 5 6])"
    by code_simp
  have v: "calculateNextPosition [text_block ''text-1'' 0 5 6] = \<lparr>x = 6, y = 5\<rparr>"
    by code_simp
  from h calculateNextPosition_last [of "[]" "text_block ''text-1'' 0 5 6"
        "take 4 move_then_add" "[text_block ''text-2'' 6 0 6, text_block ''text-3'' 0 1 6]"
        "text_block ''text-1'' 0 5 6" Text "''4''"]
  have all: "\<forall>b \<in> set [text_block ''text-2'' 6 0 6, text_block ''text-3'' 0 1 6].
               grid_key b \<le> grid_key (text_block ''text-1'' 0 5 6)"
    and pos: "position (createComponent Text ''4''
        ([text_block ''text-2'' 6 0 6, text_block ''text-3'' 0 1 6] @ [text_block ''text-1'' 0 5 6]))
       = calculateNextPosition [text_block ''text-1'' 0 5 6]"
    by blast+
  from all have keys: "grid_key (text_block ''text-2'' 6 0 6) \<le> grid_key (text_block ''text-1'' 0 5 6)"
      "grid_key (text_block ''text-3'' 0 1 6) \<le> grid_key (text_block ''text-1'' 0 5 6)"
    by simp_all
  from h keys pos v show ?thesis
    by (intro conjI)
qed

section \<open>Properties of resizing\<close>

lemma Math_round_pixels: "Math_round (of_int d / 100) = (d + 50) div 100"
proof -
  have "(of_int d / 100 + 1 / 2 :: rat) = of_int (d + 50) / of_int 100"
    by simp
  then show ?thesis
    unfolding Math_round_def by (simp only: floor_divide_of_int_eq)
qed

text \<open>
  C6. One step of a resize drag, with \<open>deltaColumns = Math.round(deltaX / 100)\<close>. From
  the right the candidate width is \<open>startWidth + deltaColumns\<close> clamped to \<open>1..12\<close> and
  the candidate position is the start position. From the left the candidate width is
  \<open>startWidth - deltaColumns\<close> clamped to \<open>1..12\<close> and the candidate position is the
  start position plus \<open>startWidth - newWidth\<close>, so that an accepted candidate has the
  right edge of the start. The candidate becomes the live value only if
  \<open>newPosition + newWidth \<le> 12\<close> and \<open>newPosition \<ge> 0\<close>; otherwise the live value stays
  as it was. For the block \<open>{x: 0, width: 6}\<close> dragged from the right by 250 pixels,
  \<open>deltaColumns\<close> is 3 and the result is width 9 at \<open>x = 0\<close>.
\<close>

theorem handleMouseMove_resize:
  "fst (handleMouseMove c dir deltaX final) =
     (let deltaColumns = Math_round (of_int deltaX / 100);
          newWidth = (case dir of
                        Right \<Rightarrow> max 1 (min 12 (width c + deltaColumns))
                      | Left \<Rightarrow> max 1 (min 12 (width c - deltaColumns)));
          newPosition = (case dir of
                           Right \<Rightarrow> x (position c)
                         | Left \<Rightarrow> x (position c) + (width c - newWidth))
      in if newPosition + newWidth \<le> 12 \<and> newPosition \<ge> 0
         then (newWidth, newPosition) else final)
   \<and> (fst (handleMouseMove c Left deltaX final) = final
        \<or> snd (fst (handleMouseMove c Left deltaX final)) + fst (fst (handleMouseMove c Left deltaX final))
            = x (position c) + width c)
   \<and> Math_round (of_int 250 / 100) = 3
   \<and> handleMouseMove (block ''a'' 0 0 6) Right 250 (6, 0)
       = ((9, 0), Some (block ''a'' 0 0 9))
   \<and> handleMouseUp (block ''a'' 0 0 6) (9, 0) = block ''a'' 0 0 9"
proof -
  have general: "fst (handleMouseMove c dir deltaX final) =
     (let deltaColumns = Math_round (of_int deltaX / 100);
          newWidth = (case dir of
                        Right \<Rightarrow> max 1 (min 12 (width c + deltaColumns))
                      | Left \<Rightarrow> max 1 (min 12 (width c - deltaColumns)));
          newPosition = (case dir of
                           Right \<Rightarrow> x (position c)
                         | Left \<Rightarrow> x (position c) + (width c - newWidth))
      in if newPosition + newWidth \<le> 12 \<and> newPosition \<ge> 0
         then (newWidth, newPosition) else final)"
    by (cases dir) (simp_all add: handleMouseMove_def Let_def)
  have edge: "fst (handleMouseMove c Left deltaX final) = final
        \<or> snd (fst (handleMouseMove c Left deltaX final)) + fst (fst (handleMouseMove c Left deltaX final))
            = x (position c) + width c"
    by (simp add: handleMouseMove_def Let_def)
  have r: "Math_round (of_int 250 / 100) = 3"
    by code_simp
  have m: "handleMouseMove (block ''a'' 0 0 6) Right 250 (6, 0) = ((9, 0), Some (block ''a'' 0 0 9))"
    by code_simp
  have u: "handleMouseUp (block ''a'' 0 0 6) (9, 0) = block ''a'' 0 0 9"
    by code_simp
  from general edge r m u show ?thesis
    by (intro conjI)
qed

theorem handleMouseMove_resize_witness:
  "fst (handleMouseMove (block ''a'' 3 0 6) Left 200 (6, 3)) = (4, 5)"
  by (rule trans [OF handleMouseMove_resize [THEN conjunct1]]) code_simp

section \<open>Properties of reordering\<close>

lemma find_None_id: "ident \<notin> id_c ` set cs \<Longrightarrow> find (\<lambda>c. id_c c = ident) cs = None"
  by (auto simp: find_None_iff)

lemma overlaps_sym: "overlaps a b = overlaps b a"
  by (auto simp: overlaps_def)

lemma no_overlap_set:
  "no_overlap cs \<Longrightarrow> a \<in> set cs \<Longrightarrow> b \<in> set cs \<Longrightarrow> a \<noteq> b \<Longrightarrow> \<not> overlaps a b"
  by (induction cs) (auto simp: list_all_iff overlaps_sym)

lemma no_overlap_distinctI:
  "distinct cs \<Longrightarrow> (\<And>a b. a \<in> set cs \<Longrightarrow> b \<in> set cs \<Longrightarrow> a \<noteq> b \<Longrightarrow> \<not> overlaps a b)
   \<Longrightarrow> no_overlap cs"
  by (induction cs) (auto simp: list_all_iff)

lemma find_by_id:
  "distinct (map id_c cs) \<Longrightarrow> a \<in> set cs \<Longrightarrow> find (\<lambda>c. id_c c = id_c a) cs = Some a"
  by (induction cs) (auto simp: rev_image_eqI)

lemma occupies_overlaps: "occupies a gx gy \<Longrightarrow> occupies b gx gy \<Longrightarrow> overlaps a b"
  by (auto simp: occupies_def overlaps_def)

lemma overlaps_footprint:
  "position a = position a' \<Longrightarrow> width a = width a' \<Longrightarrow> position b = position b'
   \<Longrightarrow> width b = width b' \<Longrightarrow> overlaps a b = overlaps a' b'"
  by (simp add: overlaps_def)

lemma find_target:
  assumes "distinct (map id_c cs)" "no_overlap cs"
    and "target \<in> set cs" "id_c target \<noteq> componentId" "occupies target gridX gridY"
  shows "find (\<lambda>c. id_c c \<noteq> componentId \<and> y (position c) = gridY
                     \<and> gridX \<ge> x (position c) \<and> gridX < x (position c) + width c) cs
         = Some target"
proof -
  let ?P = "\<lambda>c. id_c c \<noteq> componentId \<and> y (position c) = gridY
                     \<and> gridX \<ge> x (position c) \<and> gridX < x (position c) + width c"
  have "?P target"
    using assms(4,5) by (simp add: occupies_def)
  with assms(3) obtain t where t: "find ?P cs = Some t"
    by (cases "find ?P cs") (auto simp: find_None_iff)
  then have "t \<in> set cs" "?P t"
    by (auto simp: find_Some_iff)
  then have "occupies t gridX gridY"
    by (simp add: occupies_def)
  then have "overlaps t target"
    using assms(5) by (rule occupies_overlaps)
  with no_overlap_set [OF assms(2) \<open>t \<in> set cs\<close> assms(3)] have "t = target"
    by blast
  with t show ?thesis by simp
qed

text \<open>
  C9. A reorder whose dragged id is the id of no block of the layout returns before
  \<open>onReorderComponents\<close> is called: the state of the page, with its layout, its
  snapshot list and its cursor, is what it was.
\<close>

theorem reorder_unknown_id_noop:
  assumes "componentId \<notin> id_c ` set cs"
  shows "handleComponentReorder cs componentId gridX gridY = None
    \<and> (components st = Some cs \<longrightarrow> handleDrop_move componentId gridX gridY st = Inr st)"
  using find_None_id [OF assms]
  by (simp add: handleComponentReorder_def handleDrop_move_def)

theorem reorder_unknown_id_noop_witness:
  "''z'' \<notin> id_c ` set three_blocks
   \<and> handleComponentReorder three_blocks ''z'' 6 0 = None
   \<and> handleDrop_move ''z'' 6 0 \<lparr>components = Some three_blocks, history = [three_blocks], historyIndex = 0\<rparr>
       = Inr \<lparr>components = Some three_blocks, history = [three_blocks], historyIndex = 0\<rparr>"
proof -
  have h: "''z'' \<notin> id_c ` set three_blocks"
    by (simp add: three_blocks_def block_def)
  show ?thesis
    using h reorder_unknown_id_noop [OF h, of 6 0
        "\<lparr>components = Some three_blocks, history = [three_blocks], historyIndex = 0\<rparr>"]
    by simp
qed

text \<open>
  Three blocks fill row 0 without overlap: \<open>a\<close> on columns 0 to 5, \<open>b\<close> on 6 to 8,
  \<open>c\<close> on 9 to 11. Dropping \<open>a\<close> on the cell \<open>(6, 0)\<close>, which \<open>b\<close> occupies, swaps the
  two positions: \<open>a\<close>, six columns wide, now starts at column 6 and overlaps \<open>c\<close>.
\<close>

theorem swap_overlap_counterexample:
  "distinct (map id_c three_blocks) \<and> no_overlap three_blocks
   \<and> list_all in_grid three_blocks
   \<and> occupies (block ''b'' 6 0 3) 6 0
   \<and> handleComponentReorder three_blocks ''a'' 6 0 = Some three_blocks_swapped
   \<and> overlaps (block ''a'' 6 0 6) (block ''c'' 9 0 3)
   \<and> \<not> no_overlap three_blocks_swapped"
  by code_simp

text \<open>
  C1, amended. In a layout with distinct ids in which no two blocks on the same row
  overlap, a reorder whose drop cell is occupied by a target block other than the
  dragged block, the two blocks being of equal width, swaps the positions of the two
  (widths untouched, every other block unchanged) and the resulting layout has no
  overlap either.
\<close>

theorem swap_equal_width_no_overlap:
  assumes "distinct (map id_c cs)" and "no_overlap cs"
    and "dragged \<in> set cs" and "id_c dragged = componentId"
    and "target \<in> set cs" and "id_c target \<noteq> componentId"
    and "occupies target gridX gridY"
    and "width dragged = width target"
  shows "handleComponentReorder cs componentId gridX gridY =
           Some (map (\<lambda>c. if c = dragged then c\<lparr>position := position target\<rparr>
                           else if c = target then c\<lparr>position := position dragged\<rparr>
                           else c) cs)
         \<and> no_overlap (map (\<lambda>c. if c = dragged then c\<lparr>position := position target\<rparr>
                           else if c = target then c\<lparr>position := position dragged\<rparr>
                           else c) cs)"
proof -
  let ?f = "\<lambda>c. if c = dragged then c\<lparr>position := position target\<rparr>
                           else if c = target then c\<lparr>position := position dragged\<rparr>
                           else c"
  let ?g = "\<lambda>c. if id_c c = componentId then c\<lparr>position := position target\<rparr>
                  else if id_c c = id_c target then c\<lparr>position := position dragged\<rparr>
                  else c"
  have inj: "inj_on id_c (set cs)" and dist: "distinct cs"
    using assms(1) by (simp_all add: distinct_map)
  have fd: "find (\<lambda>c. id_c c = componentId) cs = Some dragged"
    using find_by_id [OF assms(1,3)] assms(4) by simp
  have ft: "find (\<lambda>c. id_c c \<noteq> componentId \<and> y (position c) = gridY
                     \<and> gridX \<ge> x (position c) \<and> gridX < x (position c) + width c) cs
         = Some target"
    using assms(1,2,5,6,7) by (rule find_target)
  have gf: "map ?g cs = map ?f cs"
  proof (rule map_cong [OF refl])
    fix c assume "c \<in> set cs"
    then have "(id_c c = componentId) = (c = dragged)" "(id_c c = id_c target) = (c = target)"
      using inj assms(3,4,5) by (auto dest: inj_onD)
    then show "?g c = ?f c" by simp
  qed
  have res: "handleComponentReorder cs componentId gridX gridY = Some (map ?f cs)"
    unfolding handleComponentReorder_def fd ft using gf by simp
  have ids: "map id_c (map ?f cs) = map id_c cs"
    by (simp add: comp_def)
  have "distinct (map id_c (map ?f cs))"
    unfolding ids by (rule assms(1))
  then have d': "distinct (map ?f cs)"
    by (simp only: distinct_map)
  have dt: "dragged \<noteq> target"
    using assms(4,6) by auto
  define s where "s = (\<lambda>c. if c = dragged then target else if c = target then dragged else c)"
  define f where "f = ?f"
  have footprint: "position (f c) = position (s c)" "width (f c) = width (s c)" for c
    using assms(8) by (simp_all add: f_def s_def)
  have s_mem: "s c \<in> set cs" if "c \<in> set cs" for c
    using that assms(3,5) by (simp add: s_def)
  have s_inj: "s a \<noteq> s b" if "a \<noteq> b" for a b
    using that dt by (auto simp: s_def)
  have no: "no_overlap (map f cs)"
  proof (rule no_overlap_distinctI)
    show "distinct (map f cs)"
      using d' by (simp only: f_def)
  next
    fix a' b' assume a': "a' \<in> set (map f cs)" and b': "b' \<in> set (map f cs)" and ne: "a' \<noteq> b'"
    from a' have "\<exists>a\<in>set cs. a' = f a"
      by (simp only: set_map image_iff)
    then obtain a where a: "a \<in> set cs" "a' = f a"
      by (rule bexE)
    from b' have "\<exists>b\<in>set cs. b' = f b"
      by (simp only: set_map image_iff)
    then obtain b where b: "b \<in> set cs" "b' = f b"
      by (rule bexE)
    from ne a(2) b(2) have "a \<noteq> b"
      by blast
    then have "s a \<noteq> s b"
      by (rule s_inj)
    with no_overlap_set [OF assms(2) s_mem [OF a(1)] s_mem [OF b(1)]]
    have "\<not> overlaps (s a) (s b)" .
    moreover have "overlaps (f a) (f b) = overlaps (s a) (s b)"
      by (rule overlaps_footprint) (rule footprint)+
    ultimately show "\<not> overlaps a' b'"
      unfolding a(2) b(2) by simp
  qed
  from res no show ?thesis by (simp only: f_def simp_thms)

qed

theorem swap_equal_width_no_overlap_witness:
  "distinct (map id_c equal_blocks) \<and> no_overlap equal_blocks
   \<and> block ''a'' 0 0 4 \<in> set equal_blocks \<and> id_c (block ''a'' 0 0 4) = ''a''
   \<and> block ''c'' 8 0 4 \<in> set equal_blocks \<and> id_c (block ''c'' 8 0 4) \<noteq> ''a''
   \<and> occupies (block ''c'' 8 0 4) 9 0
   \<and> width (block ''a'' 0 0 4) = width (block ''c'' 8 0 4)
   \<and> handleComponentReorder equal_blocks ''a'' 9 0 = Some equal_blocks_swapped
   \<and> no_overlap equal_blocks_swapped"
proof -
  have h1: "distinct (map id_c equal_blocks)" by code_simp
  have h2: "no_overlap equal_blocks" by code_simp
  have h3: "block ''a'' 0 0 4 \<in> set equal_blocks" by code_simp
  have h4: "id_c (block ''a'' 0 0 4) = ''a''" by code_simp
  have h5: "block ''c'' 8 0 4 \<in> set equal_blocks" by code_simp
  have h6: "id_c (block ''c'' 8 0 4) \<noteq> ''a''" by code_simp
  have h7: "occupies (block ''c'' 8 0 4) 9 0" by code_simp
  have h8: "width (block ''a'' 0 0 4) = width (block ''c'' 8 0 4)" by code_simp
  have e: "map (\<lambda>c. if c = block ''a'' 0 0 4 then c\<lparr>position := position (block ''c'' 8 0 4)\<rparr>
                     else if c = block ''c'' 8 0 4 then c\<lparr>position := position (block ''a'' 0 0 4)\<rparr>
                     else c) equal_blocks = equal_blocks_swapped"
    by code_simp
  show ?thesis
    using h1 h2 h3 h4 h5 h6 h7 h8
      swap_equal_width_no_overlap [OF h1 h2 h3 h4 h5 h6 h7 h8, unfolded e]
    by blast
qed

section \<open>The grid bound along a session\<close>

text \<open>
  C2. Every block of every layout reached from the empty one should have a width from 1
  to 12 and end at column 12 or before. The session below breaks the bound. Two text
  blocks are added, the second is resized from its left edge by 300 pixels (it then
  covers columns 9 to 11, and both blocks are within the grid), and the first is dropped
  on the cell \<open>(9, 0)\<close>. The swap branch of the reorder gives the first block, six
  columns wide, the position \<open>x = 9\<close> without the bound check that the other branch
  makes: the block ends at column 15.
\<close>

theorem swap_leaves_grid:
  "layout_of (run_session initial_session (take 5 resize_then_swap))
     = Some [text_block ''text-1'' 0 0 6, text_block ''text-2'' 9 0 3]
   \<and> in_grid (text_block ''text-1'' 0 0 6) \<and> in_grid (text_block ''text-2'' 9 0 3)
   \<and> layout_of (run_session initial_session resize_then_swap)
     = Some [text_block ''text-2'' 0 0 3, text_block ''text-1'' 9 0 6]
   \<and> x (position (text_block ''text-1'' 9 0 6)) + width (text_block ''text-1'' 9 0 6) = 15
   \<and> \<not> in_grid (text_block ''text-1'' 9 0 6)"
  by code_simp

end
